theory Spec2Isabelle
  imports Main
begin

section \<open>Data model of \<open>api.py\<close>\<close>

text \<open>
  The three pydantic models share the columns \<open>nombre\<close>, \<open>edad\<close>, \<open>puesto\<close>.
  \<open>PersonaCreate\<close> is the request body of the create operation; \<open>Persona\<close> is the
  response model and adds \<open>id: Optional[int]\<close>; \<open>fila\<close> is one \<open>sqlite3.Row\<close> of the
  table \<open>personas\<close>, whose \<open>id\<close> column is never null. The source declares the
  classes apart; here \<open>Persona\<close> and \<open>fila\<close> extend \<open>PersonaCreate\<close> so that the three
  share the field names of the source. Python integers are unbounded, so every integer
  that comes from a request is an \<open>int\<close>. A Python \<open>str\<close> is a sequence of code
  points, among them the surrogates \<open>U+D800\<close> to \<open>U+DFFF\<close> that a JSON escape can
  put into a request body on their own; \<open>py\<close> reads an ASCII literal of the source as
  such a sequence.
\<close>

type_synonym str = "nat list"

definition py :: "string \<Rightarrow> str" where
  "py s = map of_char s"

record PersonaCreate =
  nombre :: str
  edad :: int
  puesto :: str

record Persona = PersonaCreate +
  id_persona :: "int option"

record fila = PersonaCreate +
  id_fila :: int

text \<open>
  A field of \<open>PersonaUpdate\<close> is \<open>Optional[...] = None\<close>, and the handler reads the model
  with \<open>exclude_unset=True\<close>. So a field has three states: absent from the request body
  (\<open>Unset\<close>), sent as JSON \<open>null\<close> (\<open>Given None\<close>), or sent with a value.
\<close>

datatype 'a campo = Unset | Given "'a option"

record PersonaUpdate =
  nombre_upd :: "str campo"
  edad_upd :: "int campo"
  puesto_upd :: "str campo"

text \<open>
  The only exception the source raises itself is \<open>HTTPException(status_code, detail)\<close>.
  The others come out of \<open>cursor.execute\<close>. While the parameters are bound:
  \<open>OverflowError\<close> when a Python integer does not fit the 64-bit integer of SQLite or
  a text is longer than \<open>INT_MAX\<close> bytes, \<open>UnicodeEncodeError\<close> when a text holds a
  surrogate and so has no UTF-8 encoding, \<open>DataError\<close> when a text is longer than
  SQLite allows. While the statement runs: \<open>IntegrityError\<close> when a \<open>NOT NULL\<close> column
  would receive \<open>NULL\<close>, \<open>OperationalError\<close> when \<open>AUTOINCREMENT\<close> has no id left,
  \<open>DataError\<close> when the row is longer than SQLite allows. \<open>TypeError\<close> is what
  subscripting \<open>None\<close> raises.
\<close>

datatype error =
    HTTPException int string
  | OverflowError
  | UnicodeEncodeError
  | DataError
  | IntegrityError
  | OperationalError
  | TypeError

text \<open>
  The database file: the rows of \<open>personas\<close> in storage order, and the counter that
  \<open>AUTOINCREMENT\<close> keeps in \<open>sqlite_sequence\<close> (the largest id ever handed out).
\<close>

record db =
  personas :: "fila list"
  sqlite_sequence :: int

definition db_vacia :: db where
  "db_vacia = \<lparr>personas = [], sqlite_sequence = 0\<rparr>"

text \<open>\<open>CREATE TABLE IF NOT EXISTS\<close>: an existing table is kept as it is.\<close>

definition init_database :: "db option \<Rightarrow> db" where
  "init_database f = (case f of None \<Rightarrow> db_vacia | Some s \<Rightarrow> s)"

section \<open>The statements sent to SQLite\<close>

text \<open>An integer parameter is bound as a signed 64-bit value, or the call raises.\<close>

definition sqlite_int64 :: "int \<Rightarrow> bool" where
  "sqlite_int64 n \<longleftrightarrow> - 9223372036854775808 \<le> n \<and> n \<le> 9223372036854775807"

text \<open>
  A text parameter is bound as its UTF-8 encoding: one to four bytes for a code point,
  none for a surrogate.
\<close>

definition surrogate :: "nat \<Rightarrow> bool" where
  "surrogate c \<longleftrightarrow> 55296 \<le> c \<and> c \<le> 57343"

definition utf8_len :: "nat \<Rightarrow> nat" where
  "utf8_len c = (if c < 128 then 1 else if c < 2048 then 2 else if c < 65536 then 3 else 4)"

definition utf8_size :: "str \<Rightarrow> nat" where
  "utf8_size s = sum_list (map utf8_len s)"

text \<open>
  The parameters of a statement, as the tuple or list handed to \<open>cursor.execute\<close>.
  They are bound from left to right and the first one that cannot be bound raises:
  an integer outside the 64-bit range; a text with a surrogate, or one whose encoding
  is longer than \<open>INT_MAX\<close> bytes, or longer than the \<open>SQLITE_MAX_LENGTH\<close> of
  \<open>1000000000\<close> bytes.
\<close>

datatype parametro = P_none | P_int int | P_str str

definition bind_param :: "parametro \<Rightarrow> error option" where
  "bind_param x =
     (case x of
        P_none \<Rightarrow> None
      | P_int n \<Rightarrow> if sqlite_int64 n then None else Some OverflowError
      | P_str v \<Rightarrow>
          if list_ex surrogate v then Some UnicodeEncodeError
          else if 2147483647 < utf8_size v then Some OverflowError
          else if 1000000000 < utf8_size v then Some DataError
          else None)"

fun bind_parameters :: "parametro list \<Rightarrow> error option" where
  "bind_parameters [] = None"
| "bind_parameters (x # xs) =
     (case bind_param x of Some e \<Rightarrow> Some e | None \<Rightarrow> bind_parameters xs)"

text \<open>
  A row of \<open>personas\<close> is stored as one record: a header with its own length and one
  serial type per column, then the values. The id is the rowid and takes no room in
  the record; a text of \<open>n\<close> bytes has the serial type \<open>2 * n + 13\<close>, written as a
  varint, and takes \<open>n\<close> bytes; an integer takes 0, 1, 2, 3, 4, 6 or 8 bytes. A record
  longer than \<open>SQLITE_MAX_LENGTH\<close> is refused.
\<close>

definition varint_len :: "nat \<Rightarrow> nat" where
  "varint_len v =
     (if v < 128 then 1 else if v < 16384 then 2 else if v < 2097152 then 3
      else if v < 268435456 then 4 else if v < 34359738368 then 5
      else if v < 4398046511104 then 6 else if v < 562949953421312 then 7
      else if v < 72057594037927936 then 8 else 9)"

definition int_size :: "int \<Rightarrow> nat" where
  "int_size i =
     (let uu = (if i < 0 then - i - 1 else i)
      in if uu \<le> 127 then (if i = 0 \<or> i = 1 then 0 else 1)
         else if uu \<le> 32767 then 2 else if uu \<le> 8388607 then 3
         else if uu \<le> 2147483647 then 4 else if uu \<le> 140737488355327 then 6 else 8)"

definition record_size :: "str \<Rightarrow> int \<Rightarrow> str \<Rightarrow> nat" where
  "record_size n e c =
     1 + (1 + varint_len (2 * utf8_size n + 13) + 1 + varint_len (2 * utf8_size c + 13))
       + (utf8_size n + int_size e + utf8_size c)"

definition too_big :: "'a PersonaCreate_scheme \<Rightarrow> bool" where
  "too_big r \<longleftrightarrow> 1000000000 < record_size (nombre r) (edad r) (puesto r)"

text \<open>\<open>SELECT * FROM personas WHERE id = ?\<close> followed by \<open>fetchone()\<close>.\<close>

definition select_por_id :: "int \<Rightarrow> db \<Rightarrow> error + fila option" where
  "select_por_id k s =
     (case bind_parameters [P_int k] of
        Some e \<Rightarrow> Inl e
      | None \<Rightarrow> Inr (find (\<lambda>r. id_fila r = k) (personas s)))"

text \<open>
  \<open>SELECT * FROM personas LIMIT ? OFFSET ?\<close> followed by \<open>fetchall()\<close>. SQLite reads a
  negative \<open>LIMIT\<close> as no limit and a negative \<open>OFFSET\<close> as zero.
\<close>

definition select_limit_offset :: "int \<Rightarrow> int \<Rightarrow> db \<Rightarrow> error + fila list" where
  "select_limit_offset limit skip s =
     (case bind_parameters [P_int limit, P_int skip] of
        Some e \<Rightarrow> Inl e
      | None \<Rightarrow>
          let rest = drop (nat skip) (personas s)
          in Inr (if limit < 0 then rest else take (nat limit) rest))"

text \<open>
  \<open>INSERT INTO personas (nombre, edad, puesto) VALUES (?, ?, ?)\<close>. The id column is
  \<open>INTEGER PRIMARY KEY AUTOINCREMENT\<close>: the new id is one more than the largest id the
  table holds or ever held, and the insert fails once that is the largest 64-bit value.
  The id is chosen before the record is built. The result carries \<open>cursor.lastrowid\<close>.
\<close>

definition insert_persona :: "PersonaCreate \<Rightarrow> db \<Rightarrow> error + (int \<times> db)" where
  "insert_persona p s =
     (case bind_parameters [P_str (nombre p), P_int (edad p), P_str (puesto p)] of
        Some e \<Rightarrow> Inl e
      | None \<Rightarrow>
          let m = fold max (map id_fila (personas s)) (sqlite_sequence s)
          in if 9223372036854775807 \<le> m then Inl OperationalError
             else if too_big p then Inl DataError
             else Inr (m + 1,
                    \<lparr>personas = personas s @
                       [\<lparr>nombre = nombre p, edad = edad p, puesto = puesto p,
                         id_fila = m + 1\<rparr>],
                     sqlite_sequence = m + 1\<rparr>))"

text \<open>
  One entry of \<open>update_data\<close>: the column named by the key, with the value sent for it.
  The loop of the handler turns each entry into a clause \<open>column = ?\<close> and a parameter.
\<close>

datatype asignacion =
    Set_nombre "str option"
  | Set_edad "int option"
  | Set_puesto "str option"

definition dict_exclude_unset :: "PersonaUpdate \<Rightarrow> asignacion list" where
  "dict_exclude_unset u =
     (case nombre_upd u of Unset \<Rightarrow> [] | Given v \<Rightarrow> [Set_nombre v]) @
     (case edad_upd u of Unset \<Rightarrow> [] | Given v \<Rightarrow> [Set_edad v]) @
     (case puesto_upd u of Unset \<Rightarrow> [] | Given v \<Rightarrow> [Set_puesto v])"

text \<open>The parameter the loop appends to \<open>values\<close> for one entry.\<close>

fun valor :: "asignacion \<Rightarrow> parametro" where
  "valor (Set_nombre v) = (case v of None \<Rightarrow> P_none | Some x \<Rightarrow> P_str x)"
| "valor (Set_edad v) = (case v of None \<Rightarrow> P_none | Some x \<Rightarrow> P_int x)"
| "valor (Set_puesto v) = (case v of None \<Rightarrow> P_none | Some x \<Rightarrow> P_str x)"

fun es_null :: "asignacion \<Rightarrow> bool" where
  "es_null (Set_nombre v) = (v = None)"
| "es_null (Set_edad v) = (v = None)"
| "es_null (Set_puesto v) = (v = None)"

fun set_columna :: "asignacion \<Rightarrow> fila \<Rightarrow> fila" where
  "set_columna (Set_nombre (Some v)) r = r\<lparr>nombre := v\<rparr>"
| "set_columna (Set_edad (Some v)) r = r\<lparr>edad := v\<rparr>"
| "set_columna (Set_puesto (Some v)) r = r\<lparr>puesto := v\<rparr>"
| "set_columna _ r = r"

text \<open>
  \<open>UPDATE personas SET ... WHERE id = ?\<close>. The parameters are bound first (the values,
  then the id); all three columns are \<open>NOT NULL\<close>, so a \<open>NULL\<close> aimed at a row that
  matches aborts the statement, and so does a new record that is too long.
\<close>

definition update_personas :: "asignacion list \<Rightarrow> int \<Rightarrow> db \<Rightarrow> error + db" where
  "update_personas sets k s =
     (case bind_parameters (map valor sets @ [P_int k]) of
        Some e \<Rightarrow> Inl e
      | None \<Rightarrow>
          if list_ex (\<lambda>r. id_fila r = k) (personas s) \<and> list_ex es_null sets
          then Inl IntegrityError
          else if list_ex (\<lambda>r. id_fila r = k \<and> too_big (fold set_columna sets r)) (personas s)
          then Inl DataError
          else Inr (s\<lparr>personas :=
                      map (\<lambda>r. if id_fila r = k then fold set_columna sets r else r)
                        (personas s)\<rparr>))"

text \<open>\<open>DELETE FROM personas WHERE id = ?\<close>. The counter of \<open>AUTOINCREMENT\<close> stays.\<close>

definition delete_persona :: "int \<Rightarrow> db \<Rightarrow> error + db" where
  "delete_persona k s =
     (case bind_parameters [P_int k] of
        Some e \<Rightarrow> Inl e
      | None \<Rightarrow> Inr (s\<lparr>personas := filter (\<lambda>r. id_fila r \<noteq> k) (personas s)\<rparr>))"

section \<open>The request handlers\<close>

text \<open>\<open>Persona(id=row["id"], nombre=row["nombre"], edad=row["edad"], puesto=row["puesto"])\<close>\<close>

definition persona_de_fila :: "fila \<Rightarrow> Persona" where
  "persona_de_fila row =
     \<lparr>nombre = nombre row, edad = edad row, puesto = puesto row,
      id_persona = Some (id_fila row)\<rparr>"

definition no_encontrada :: error where
  "no_encontrada = HTTPException 404 ''Persona no encontrada en el equipo''"

text \<open>
  Every handler takes the database and returns its answer with the database it leaves
  behind. A handler that raises returns \<open>Inl\<close>; what was committed before stays.
\<close>

definition crear_persona :: "PersonaCreate \<Rightarrow> db \<Rightarrow> (error + Persona) \<times> db" where
  "crear_persona persona s =
     (case insert_persona persona s of
        Inl e \<Rightarrow> (Inl e, s)
      | Inr (persona_id, s') \<Rightarrow>
          (Inr \<lparr>nombre = nombre persona, edad = edad persona, puesto = puesto persona,
                id_persona = Some persona_id\<rparr>, s'))"

definition obtener_equipo :: "int \<Rightarrow> int \<Rightarrow> db \<Rightarrow> (error + Persona list) \<times> db" where
  "obtener_equipo skip limit s =
     (case select_limit_offset limit skip s of
        Inl e \<Rightarrow> (Inl e, s)
      | Inr rows \<Rightarrow> (Inr (map persona_de_fila rows), s))"

definition obtener_persona :: "int \<Rightarrow> db \<Rightarrow> (error + Persona) \<times> db" where
  "obtener_persona persona_id s =
     (case select_por_id persona_id s of
        Inl e \<Rightarrow> (Inl e, s)
      | Inr None \<Rightarrow> (Inl no_encontrada, s)
      | Inr (Some row) \<Rightarrow> (Inr (persona_de_fila row), s))"

definition actualizar_persona ::
    "int \<Rightarrow> PersonaUpdate \<Rightarrow> db \<Rightarrow> (error + Persona) \<times> db" where
  "actualizar_persona persona_id persona_update s =
     (case select_por_id persona_id s of
        Inl e \<Rightarrow> (Inl e, s)
      | Inr None \<Rightarrow> (Inl no_encontrada, s)
      | Inr (Some row) \<Rightarrow>
          (let update_data = dict_exclude_unset persona_update
           in if update_data = [] then (Inr (persona_de_fila row), s)
              else (case update_personas update_data persona_id s of
                      Inl e \<Rightarrow> (Inl e, s)
                    | Inr s' \<Rightarrow>
                        (case select_por_id persona_id s' of
                           Inl e \<Rightarrow> (Inl e, s')
                         | Inr None \<Rightarrow> (Inl TypeError, s')
                         | Inr (Some updated_row) \<Rightarrow>
                             (Inr (persona_de_fila updated_row), s')))))"

text \<open>The answer of the delete handler: a message and the row read before the delete.\<close>

record respuesta_eliminar =
  message :: str
  persona_eliminada :: fila

definition eliminar_persona :: "int \<Rightarrow> db \<Rightarrow> (error + respuesta_eliminar) \<times> db" where
  "eliminar_persona persona_id s =
     (case select_por_id persona_id s of
        Inl e \<Rightarrow> (Inl e, s)
      | Inr None \<Rightarrow> (Inl no_encontrada, s)
      | Inr (Some row) \<Rightarrow>
          (case delete_persona persona_id s of
             Inl e \<Rightarrow> (Inl e, s)
           | Inr s' \<Rightarrow>
               (Inr \<lparr>message = py (''Persona '' @ [CHR 0x27]) @ nombre row @
                                py ([CHR 0x27] @ '' eliminada del equipo''),
                     persona_eliminada = row\<rparr>, s')))"

text \<open>
  The requests the application routes, and the database after serving one or several.
\<close>

datatype peticion =
    Crear PersonaCreate
  | Listar int int
  | Obtener int
  | Actualizar int PersonaUpdate
  | Eliminar int

fun atender :: "peticion \<Rightarrow> db \<Rightarrow> db" where
  "atender (Crear p) s = snd (crear_persona p s)"
| "atender (Listar skip limit) s = snd (obtener_equipo skip limit s)"
| "atender (Obtener k) s = snd (obtener_persona k s)"
| "atender (Actualizar k u) s = snd (actualizar_persona k u s)"
| "atender (Eliminar k) s = snd (eliminar_persona k s)"

definition atender_todas :: "peticion list \<Rightarrow> db \<Rightarrow> db" where
  "atender_todas reqs s = fold atender reqs s"


text \<open>
  A request body for the update that sends a value for some of the three fields and
  leaves the others out: \<open>None\<close> is a field left out, \<open>Some v\<close> a field sent with \<open>v\<close>.
\<close>

definition supplied :: "'a option \<Rightarrow> 'a campo" where
  "supplied x = (case x of None \<Rightarrow> Unset | Some v \<Rightarrow> Given (Some v))"

definition cuerpo :: "str option \<Rightarrow> int option \<Rightarrow> str option \<Rightarrow> PersonaUpdate" where
  "cuerpo n e c = \<lparr>nombre_upd = supplied n, edad_upd = supplied e, puesto_upd = supplied c\<rparr>"



text \<open>
  The name, age and role that SQLite takes as one row: no surrogate in the texts, a
  64-bit age, and a record within \<open>SQLITE_MAX_LENGTH\<close>.
\<close>

definition almacenable :: "str \<Rightarrow> int \<Rightarrow> str \<Rightarrow> bool" where
  "almacenable n e c \<longleftrightarrow>
     \<not> list_ex surrogate n \<and> sqlite_int64 e \<and> \<not> list_ex surrogate c \<and>
     record_size n e c \<le> 1000000000"

text \<open>
  What SQLite guarantees of the table: the rows lie in ascending id order, every id is
  positive and at most the counter, and every stored integer is a 64-bit value.
\<close>

definition wf_db :: "db \<Rightarrow> bool" where
  "wf_db s \<longleftrightarrow>
     sorted_wrt (<) (map id_fila (personas s)) \<and>
     list_all (\<lambda>r. 1 \<le> id_fila r \<and> id_fila r \<le> sqlite_sequence s \<and> sqlite_int64 (edad r))
       (personas s) \<and>
     0 \<le> sqlite_sequence s \<and> sqlite_sequence s \<le> 9223372036854775807"

text \<open>
  The records of the worked example, for evaluating the handlers: two request bodies,
  the rows they become, and the tables holding the first one, two and three rows.
\<close>

definition alta_ana :: PersonaCreate where
  "alta_ana = \<lparr>nombre = py ''Ana'', edad = 30, puesto = py ''Engineer''\<rparr>"

definition alta_luis :: PersonaCreate where
  "alta_luis = \<lparr>nombre = py ''Luis'', edad = 41, puesto = py ''Analyst''\<rparr>"

definition fila_ana :: fila where
  "fila_ana = \<lparr>nombre = py ''Ana'', edad = 30, puesto = py ''Engineer'', id_fila = 1\<rparr>"

definition fila_luis :: fila where
  "fila_luis = \<lparr>nombre = py ''Luis'', edad = 41, puesto = py ''Analyst'', id_fila = 2\<rparr>"

definition fila_eva :: fila where
  "fila_eva = \<lparr>nombre = py ''Eva'', edad = 25, puesto = py ''Designer'', id_fila = 3\<rparr>"

definition db_una :: db where
  "db_una = \<lparr>personas = [fila_ana], sqlite_sequence = 1\<rparr>"

definition db_dos :: db where
  "db_dos = \<lparr>personas = [fila_ana, fila_luis], sqlite_sequence = 2\<rparr>"

definition db_tres :: db where
  "db_tres = \<lparr>personas = [fila_ana, fila_luis, fila_eva], sqlite_sequence = 3\<rparr>"

section \<open>Facts about the table\<close>

lemmas ejemplos =
  alta_ana_def alta_luis_def fila_ana_def fila_luis_def fila_eva_def
  db_una_def db_dos_def db_tres_def

lemmas sqlite_defs =
  bind_param_def sqlite_int64_def surrogate_def utf8_size_def utf8_len_def py_def
  too_big_def record_size_def varint_len_def int_size_def almacenable_def

subsection \<open>Binding\<close>

lemma bind_parameters_None:
  "bind_parameters xs = None \<longleftrightarrow> (\<forall>x \<in> set xs. bind_param x = None)"
  by (induction xs) (auto split: option.splits)

lemma bind_param_int: "bind_param (P_int n) = (if sqlite_int64 n then None else Some OverflowError)"
  by (simp add: bind_param_def)

lemma bind_param_str:
  "bind_param (P_str v) = None \<longleftrightarrow> \<not> list_ex surrogate v \<and> utf8_size v \<le> 1000000000"
  by (auto simp: bind_param_def)

lemma select_por_id_eq:
  "select_por_id k s =
     (if \<not> sqlite_int64 k then Inl OverflowError
      else Inr (find (\<lambda>r. id_fila r = k) (personas s)))"
  by (simp add: select_por_id_def bind_param_int)

lemma select_limit_offset_eq:
  "select_limit_offset limit skip s =
     (if \<not> (sqlite_int64 limit \<and> sqlite_int64 skip) then Inl OverflowError
      else Inr (if limit < 0 then drop (nat skip) (personas s)
                else take (nat limit) (drop (nat skip) (personas s))))"
  by (simp add: select_limit_offset_def bind_param_int Let_def)

lemma delete_persona_eq:
  "delete_persona k s =
     (if \<not> sqlite_int64 k then Inl OverflowError
      else Inr (s\<lparr>personas := filter (\<lambda>r. id_fila r \<noteq> k) (personas s)\<rparr>))"
  by (simp add: delete_persona_def bind_param_int)

lemma utf8_size_le_record_size:
  "utf8_size n \<le> record_size n e c \<and> utf8_size c \<le> record_size n e c"
  by (simp add: record_size_def)

text \<open>\<open>almacenable\<close> is exactly: the three parameters bind and the record is not too long.\<close>

lemma almacenable_iff:
  "almacenable (nombre p) (edad p) (puesto p) \<longleftrightarrow>
     bind_parameters [P_str (nombre p), P_int (edad p), P_str (puesto p)] = None \<and> \<not> too_big p"
proof -
  have "utf8_size (nombre p) \<le> 1000000000" "utf8_size (puesto p) \<le> 1000000000"
    if "record_size (nombre p) (edad p) (puesto p) \<le> 1000000000"
    using that utf8_size_le_record_size [of "nombre p" "edad p" "puesto p"] by simp_all
  then show ?thesis
    unfolding bind_parameters_None
    by (auto simp: almacenable_def bind_param_int bind_param_str too_big_def)
qed

subsection \<open>The counter and the invariant\<close>

lemma fold_max_ge: "(a::int) \<le> fold max xs a"
  by (induction xs arbitrary: a) (auto intro: order_trans [OF max.cobounded2])

lemma fold_max_mem: "x \<in> set xs \<Longrightarrow> (x::int) \<le> fold max xs a"
proof (induction xs arbitrary: a)
  case Nil then show ?case by simp
next
  case (Cons y ys)
  show ?case
  proof (cases "x = y")
    case True
    have "y \<le> max y a" by simp
    also have "\<dots> \<le> fold max ys (max y a)" by (rule fold_max_ge)
    finally show ?thesis using True by simp
  next
    case False
    with Cons show ?thesis by simp
  qed
qed

lemma fold_max_bounded: "\<forall>x \<in> set xs. x \<le> a \<Longrightarrow> fold max xs a = (a::int)"
  by (induction xs) (auto simp: max_def)

lemma wf_db_max:
  "wf_db s \<Longrightarrow> fold max (map id_fila (personas s)) (sqlite_sequence s) = sqlite_sequence s"
  by (rule fold_max_bounded) (auto simp: wf_db_def list_all_iff)

lemma wf_db_vacia: "wf_db db_vacia"
  by (simp add: wf_db_def db_vacia_def)

lemma wf_db_id_range: "wf_db s \<Longrightarrow> r \<in> set (personas s) \<Longrightarrow> sqlite_int64 (id_fila r)"
  by (auto simp: wf_db_def list_all_iff sqlite_int64_def)

lemma find_distinct:
  "distinct (map f xs) \<Longrightarrow> r \<in> set xs \<Longrightarrow> find (\<lambda>x. f x = f r) xs = Some r"
  by (induction xs) (auto simp: rev_image_eqI)

lemma wf_db_distinct: "wf_db s \<Longrightarrow> distinct (map id_fila (personas s))"
  by (simp add: wf_db_def strict_sorted_iff)

lemma select_por_id_present:
  "wf_db s \<Longrightarrow> r \<in> set (personas s) \<Longrightarrow> select_por_id (id_fila r) s = Inr (Some r)"
  by (simp add: select_por_id_eq wf_db_id_range find_distinct wf_db_distinct)

lemma select_por_id_absent:
  "sqlite_int64 k \<Longrightarrow> k \<notin> set (map id_fila (personas s)) \<Longrightarrow> select_por_id k s = Inr None"
  by (auto simp: select_por_id_eq find_None_iff)

subsection \<open>Insert\<close>

lemma insert_persona_wf:
  assumes "wf_db s" "almacenable (nombre p) (edad p) (puesto p)"
    "sqlite_sequence s < 9223372036854775807"
  shows "insert_persona p s = Inr (sqlite_sequence s + 1,
           \<lparr>personas = personas s @ [\<lparr>nombre = nombre p, edad = edad p, puesto = puesto p,
              id_fila = sqlite_sequence s + 1\<rparr>], sqlite_sequence = sqlite_sequence s + 1\<rparr>)"
  using assms(1,3) assms(2) [unfolded almacenable_iff]
  by (simp add: insert_persona_def wf_db_max Let_def)

lemma insert_persona_Inr:
  assumes "insert_persona p s = Inr (i, s')"
  shows "almacenable (nombre p) (edad p) (puesto p)
       \<and> i = fold max (map id_fila (personas s)) (sqlite_sequence s) + 1
       \<and> i \<le> 9223372036854775807
       \<and> s' = \<lparr>personas = personas s @ [\<lparr>nombre = nombre p, edad = edad p, puesto = puesto p,
                   id_fila = i\<rparr>], sqlite_sequence = i\<rparr>"
  using assms unfolding almacenable_iff
  by (auto simp: insert_persona_def Let_def split: option.splits if_splits)

lemma wf_insert:
  assumes "wf_db s" "insert_persona p s = Inr (i, s')"
  shows "wf_db s'"
proof -
  note h = insert_persona_Inr [OF assms(2)]
  from h have e: "sqlite_int64 (edad p)" by (simp add: almacenable_def)
  from h assms(1) have i: "i = sqlite_sequence s + 1" by (simp add: wf_db_max)
  from h have s': "s' = \<lparr>personas = personas s @ [\<lparr>nombre = nombre p, edad = edad p,
      puesto = puesto p, id_fila = i\<rparr>], sqlite_sequence = i\<rparr>" by simp
  from h have m: "i \<le> 9223372036854775807" by simp
  from assms(1) e m show ?thesis unfolding s' i
    by (auto simp: wf_db_def sorted_wrt_append list_all_iff)
qed


lemma wf_crear: "wf_db s \<Longrightarrow> wf_db (snd (crear_persona p s))"
  by (auto simp: crear_persona_def split: sum.splits dest: wf_insert)




lemma crear_persona_ids:
  assumes "crear_persona p s = (Inr r, s')"
  shows "id_persona r = Some (sqlite_sequence s')
       \<and> sqlite_sequence s < sqlite_sequence s'
       \<and> map id_fila (personas s') = map id_fila (personas s) @ [sqlite_sequence s']
       \<and> (\<forall>j \<in> set (map id_fila (personas s)). j < sqlite_sequence s')"
proof -
  let ?m = "fold max (map id_fila (personas s)) (sqlite_sequence s)"
  from assms obtain i where ins: "insert_persona p s = Inr (i, s')"
    and r: "r = \<lparr>nombre = nombre p, edad = edad p, puesto = puesto p, id_persona = Some i\<rparr>"
    by (auto simp: crear_persona_def split: sum.splits)
  from insert_persona_Inr [OF ins] have i: "i = ?m + 1"
    and s': "s' = \<lparr>personas = personas s @ [\<lparr>nombre = nombre p, edad = edad p, puesto = puesto p,
                          id_fila = i\<rparr>], sqlite_sequence = i\<rparr>"
    by simp_all
  have "sqlite_sequence s \<le> ?m" by (rule fold_max_ge)
  moreover have "\<forall>j \<in> set (map id_fila (personas s)). j \<le> ?m"
    using fold_max_mem by blast
  ultimately show ?thesis unfolding r s' i by auto
qed

lemma crear_persona_id_value:
  "crear_persona p s = (Inr r, s') \<Longrightarrow>
     id_persona r = Some (fold max (map id_fila (personas s)) (sqlite_sequence s) + 1)"
  by (auto simp: crear_persona_def split: sum.splits dest: insert_persona_Inr)

lemma crear_persona_fail: "fst (crear_persona p s) = Inl e \<Longrightarrow> snd (crear_persona p s) = s"
  by (auto simp: crear_persona_def split: sum.splits)

lemma seq_crear: "sqlite_sequence s \<le> sqlite_sequence (snd (crear_persona p s))"
proof (cases "fst (crear_persona p s)")
  case (Inl e)
  then show ?thesis by (simp add: crear_persona_fail)
next
  case (Inr r)
  then have "crear_persona p s = (Inr r, snd (crear_persona p s))"
    by (metis prod.collapse)
  from crear_persona_ids [OF this] show ?thesis by simp
qed

subsection \<open>Update and delete\<close>

lemma id_fila_set_columna: "id_fila (set_columna a r) = id_fila r"
  by (cases "(a, r)" rule: set_columna.cases) simp_all

lemma id_fila_fold_set_columna: "id_fila (fold set_columna sets r) = id_fila r"
  by (induction sets arbitrary: r) (simp_all add: id_fila_set_columna)

lemma ids_map_update:
  "map id_fila (map (\<lambda>r. if id_fila r = k then f r else r) xs) = map id_fila xs"
  if "\<And>r. id_fila (f r) = id_fila r"
  by (induction xs) (simp_all add: that)

lemma find_map_const:
  "find (\<lambda>r. id_fila r = k) xs = Some row \<Longrightarrow> id_fila new = k \<Longrightarrow>
     find (\<lambda>r. id_fila r = k) (map (\<lambda>r. if id_fila r = k then new else r) xs) = Some new"
  by (induction xs) (auto split: if_splits)

lemma filter_map_const:
  "filter (\<lambda>r. id_fila r \<noteq> k) (map (\<lambda>r. if id_fila r = k then new else r) xs)
   = filter (\<lambda>r. id_fila r \<noteq> k) xs" if "id_fila new = k"
  by (induction xs) (simp_all add: that)

lemma ids_map_const:
  "map id_fila (map (\<lambda>r. if id_fila r = k then new else r) xs) = map id_fila xs"
  if "id_fila new = k"
  by (induction xs) (simp_all add: that)

lemma update_personas_Inr:
  assumes "update_personas d k s = Inr s'"
  shows "(\<forall>a \<in> set d. bind_param (valor a) = None)
       \<and> s' = s\<lparr>personas := map (\<lambda>r. if id_fila r = k then fold set_columna d r else r) (personas s)\<rparr>"
  using assms
  by (auto simp: update_personas_def bind_parameters_None split: option.splits if_splits)

lemma update_personas_ids:
  "update_personas d k s = Inr s' \<Longrightarrow>
     map id_fila (personas s') = map id_fila (personas s) \<and> sqlite_sequence s' = sqlite_sequence s"
  by (auto simp: ids_map_update id_fila_fold_set_columna dest!: update_personas_Inr)

lemma edad_set_columna:
  "bind_param (valor a) = None \<Longrightarrow> sqlite_int64 (edad r) \<Longrightarrow> sqlite_int64 (edad (set_columna a r))"
  by (cases "(a, r)" rule: set_columna.cases) (simp_all add: bind_param_int split: if_splits)

lemma edad_fold_set_columna:
  "\<forall>a \<in> set sets. bind_param (valor a) = None \<Longrightarrow> sqlite_int64 (edad r) \<Longrightarrow>
     sqlite_int64 (edad (fold set_columna sets r))"
  by (induction sets arbitrary: r) (simp_all add: edad_set_columna)

lemma wf_update:
  assumes "wf_db s" and "update_personas d k s = Inr s'"
  shows "wf_db s'"
proof -
  from update_personas_Inr [OF assms(2)] have b: "\<forall>a \<in> set d. bind_param (valor a) = None"
    and s': "s' = s\<lparr>personas := map (\<lambda>r. if id_fila r = k then fold set_columna d r else r) (personas s)\<rparr>"
    by simp_all
  have ids: "map id_fila (personas s') = map id_fila (personas s)"
    and sq: "sqlite_sequence s' = sqlite_sequence s"
    using update_personas_ids [OF assms(2)] by simp_all
  have rows: "list_all (\<lambda>r. 1 \<le> id_fila r \<and> id_fila r \<le> sqlite_sequence s \<and> sqlite_int64 (edad r))
       (personas s')"
    using assms(1) b unfolding s'
    by (auto simp: wf_db_def list_all_iff id_fila_fold_set_columna edad_fold_set_columna)
  show ?thesis
    using assms(1) rows unfolding wf_db_def ids sq by simp
qed

lemma wf_delete:
  assumes "wf_db s" and "delete_persona k s = Inr s'"
  shows "wf_db s'"
proof -
  from assms(2) have s': "s' = s\<lparr>personas := filter (\<lambda>r. id_fila r \<noteq> k) (personas s)\<rparr>"
    by (auto simp: delete_persona_eq split: if_splits)
  have "sorted_wrt (<) (map id_fila (filter (\<lambda>r. id_fila r \<noteq> k) (personas s)))"
    using assms(1) by (simp add: wf_db_def sorted_wrt_map sorted_wrt_filter)
  then show ?thesis using assms(1) unfolding s'
    by (auto simp: wf_db_def list_all_iff)
qed

lemma wf_actualizar: "wf_db s \<Longrightarrow> wf_db (snd (actualizar_persona k u s))"
  by (auto simp: actualizar_persona_def Let_def split: sum.splits option.splits dest: wf_update)

lemma wf_eliminar: "wf_db s \<Longrightarrow> wf_db (snd (eliminar_persona k s))"
  by (auto simp: eliminar_persona_def split: sum.splits option.splits dest: wf_delete)

lemma snd_obtener_persona: "snd (obtener_persona k s) = s"
  by (simp add: obtener_persona_def split: sum.splits option.splits)

lemma snd_obtener_equipo: "snd (obtener_equipo skip limit s) = s"
  by (simp add: obtener_equipo_def split: sum.splits)

lemma wf_atender: "wf_db s \<Longrightarrow> wf_db (atender req s)"
  by (cases req) (simp_all add: wf_crear wf_actualizar wf_eliminar snd_obtener_persona snd_obtener_equipo)

lemma wf_atender_todas: "wf_db s \<Longrightarrow> wf_db (atender_todas reqs s)"
  unfolding atender_todas_def
  by (induction reqs arbitrary: s) (simp_all add: wf_atender)

lemma delete_persona_ids:
  "delete_persona k s = Inr s' \<Longrightarrow>
     map id_fila (personas s') = filter (\<lambda>i. i \<noteq> k) (map id_fila (personas s))
     \<and> sqlite_sequence s' = sqlite_sequence s"
  by (auto simp: delete_persona_eq filter_map comp_def split: if_splits)

lemma actualizar_persona_ids:
  "map id_fila (personas (snd (actualizar_persona k u s))) = map id_fila (personas s)
   \<and> sqlite_sequence (snd (actualizar_persona k u s)) = sqlite_sequence s"
  by (auto simp: actualizar_persona_def Let_def split: sum.splits option.splits
        dest: update_personas_ids)

lemma eliminar_persona_ids:
  "(map id_fila (personas (snd (eliminar_persona k s))) = map id_fila (personas s)
      \<or> map id_fila (personas (snd (eliminar_persona k s))) = filter (\<lambda>i. i \<noteq> k) (map id_fila (personas s)))
   \<and> sqlite_sequence (snd (eliminar_persona k s)) = sqlite_sequence s"
  by (auto simp: eliminar_persona_def split: sum.splits option.splits dest: delete_persona_ids)

lemma seq_atender: "sqlite_sequence s \<le> sqlite_sequence (atender req s)"
  by (cases req)
     (simp_all add: seq_crear snd_obtener_persona snd_obtener_equipo actualizar_persona_ids
        eliminar_persona_ids)

lemma seq_atender_todas: "sqlite_sequence s \<le> sqlite_sequence (atender_todas reqs s)"
  unfolding atender_todas_def
proof (induction reqs arbitrary: s)
  case Nil
  show ?case by simp
next
  case (Cons req reqs)
  have "sqlite_sequence s \<le> sqlite_sequence (atender req s)" by (rule seq_atender)
  also have "\<dots> \<le> sqlite_sequence (fold atender reqs (atender req s))" by (rule Cons.IH)
  finally show ?case by simp
qed

lemma actualizar_persona_id:
  assumes "fst (actualizar_persona k u s) = Inr r"
  shows "id_persona r = Some k"
proof -
  have f: "find (\<lambda>r. id_fila r = k) xs = Some row \<Longrightarrow> id_fila row = k" for xs row
    by (induction xs) (auto split: if_splits)
  from assms show ?thesis
    by (auto simp: actualizar_persona_def Let_def select_por_id_eq persona_de_fila_def
          split: sum.splits option.splits if_splits dest: f)
qed

lemma atender_ids:
  "map id_fila (personas (atender req s)) = map id_fila (personas s)
   \<or> (\<exists>i. map id_fila (personas (atender req s)) = map id_fila (personas s) @ [i]
          \<and> list_all (\<lambda>j. j < i) (map id_fila (personas s)))
   \<or> (\<exists>k. map id_fila (personas (atender req s)) = filter (\<lambda>i. i \<noteq> k) (map id_fila (personas s)))"
proof (cases req)
  case (Crear p)
  show ?thesis
  proof (cases "fst (crear_persona p s)")
    case (Inl e)
    then show ?thesis using Crear by (simp add: crear_persona_fail)
  next
    case (Inr r)
    then have "crear_persona p s = (Inr r, snd (crear_persona p s))"
      by (metis prod.collapse)
    from crear_persona_ids [OF this]
    have "map id_fila (personas (snd (crear_persona p s)))
            = map id_fila (personas s) @ [sqlite_sequence (snd (crear_persona p s))]"
      and "list_all (\<lambda>j. j < sqlite_sequence (snd (crear_persona p s))) (map id_fila (personas s))"
      by (simp_all add: list_all_iff)
    then show ?thesis using Crear by auto
  qed
next
  case (Listar skip limit)
  then show ?thesis by (simp add: snd_obtener_equipo)
next
  case (Obtener k)
  then show ?thesis by (simp add: snd_obtener_persona)
next
  case (Actualizar k u)
  then show ?thesis by (simp add: actualizar_persona_ids)
next
  case (Eliminar k)
  then show ?thesis using eliminar_persona_ids [of k s] by auto
qed

lemma select_por_id_error: "select_por_id k s = Inl e \<Longrightarrow> e = OverflowError"
  by (simp add: select_por_id_eq split: if_splits)

lemma delete_persona_error: "delete_persona k s = Inl e \<Longrightarrow> e = OverflowError"
  by (simp add: delete_persona_eq split: if_splits)

lemma bind_param_not_http: "bind_param x \<noteq> Some (HTTPException c d)"
  by (simp add: bind_param_def split: parametro.splits)

lemma bind_parameters_not_http: "bind_parameters xs \<noteq> Some (HTTPException c d)"
  by (induction xs) (auto simp: bind_param_not_http split: option.splits)

lemma update_personas_not_http: "update_personas d k s \<noteq> Inl (HTTPException c m)"
  by (auto simp: update_personas_def bind_parameters_not_http split: option.splits)


subsection \<open>A body that sends values\<close>

lemma dict_cuerpo:
  "dict_exclude_unset (cuerpo n e c) =
     (case n of None \<Rightarrow> [] | Some v \<Rightarrow> [Set_nombre (Some v)]) @
     (case e of None \<Rightarrow> [] | Some v \<Rightarrow> [Set_edad (Some v)]) @
     (case c of None \<Rightarrow> [] | Some v \<Rightarrow> [Set_puesto (Some v)])"
  by (simp add: dict_exclude_unset_def cuerpo_def supplied_def split: option.splits)

lemma dict_cuerpo_no_null: "\<not> list_ex es_null (dict_exclude_unset (cuerpo n e c))"
  by (simp add: dict_cuerpo split: option.splits)

lemma fold_dict_cuerpo:
  "fold set_columna (dict_exclude_unset (cuerpo n e c)) (row :: fila) =
     \<lparr>nombre = (case n of None \<Rightarrow> nombre row | Some v \<Rightarrow> v),
      edad = (case e of None \<Rightarrow> edad row | Some v \<Rightarrow> v),
      puesto = (case c of None \<Rightarrow> puesto row | Some v \<Rightarrow> v),
      id_fila = id_fila row\<rparr>"
  by (simp add: dict_cuerpo split: option.splits)

lemma dict_cuerpo_bind:
  assumes "\<forall>v. n = Some v \<longrightarrow> \<not> list_ex surrogate v \<and> utf8_size v \<le> 1000000000"
    and "\<forall>v. e = Some v \<longrightarrow> sqlite_int64 v"
    and "\<forall>v. c = Some v \<longrightarrow> \<not> list_ex surrogate v \<and> utf8_size v \<le> 1000000000"
    and "sqlite_int64 k"
  shows "bind_parameters (map valor (dict_exclude_unset (cuerpo n e c)) @ [P_int k]) = None"
  using assms
  by (auto simp: bind_parameters_None dict_cuerpo bind_param_int bind_param_str split: option.splits)

text \<open>
  The update of a row of the table with such a body: what it answers and what it
  leaves, when every sent text is free of surrogates, a sent age is a 64-bit value and
  the new record is not too long.
\<close>

lemma actualizar_persona_cuerpo:
  assumes "wf_db s" and "row \<in> set (personas s)"
    and "\<forall>v. n = Some v \<longrightarrow> \<not> list_ex surrogate v"
    and "\<forall>v. e = Some v \<longrightarrow> sqlite_int64 v"
    and "\<forall>v. c = Some v \<longrightarrow> \<not> list_ex surrogate v"
    and "record_size (case n of None \<Rightarrow> nombre row | Some v \<Rightarrow> v)
           (case e of None \<Rightarrow> edad row | Some v \<Rightarrow> v)
           (case c of None \<Rightarrow> puesto row | Some v \<Rightarrow> v) \<le> 1000000000"
  shows "actualizar_persona (id_fila row) (cuerpo n e c) s =
           (Inr \<lparr>nombre = (case n of None \<Rightarrow> nombre row | Some v \<Rightarrow> v),
                 edad = (case e of None \<Rightarrow> edad row | Some v \<Rightarrow> v),
                 puesto = (case c of None \<Rightarrow> puesto row | Some v \<Rightarrow> v),
                 id_persona = Some (id_fila row)\<rparr>,
            s\<lparr>personas := map (\<lambda>r. if id_fila r = id_fila row
                 then \<lparr>nombre = (case n of None \<Rightarrow> nombre row | Some v \<Rightarrow> v),
                       edad = (case e of None \<Rightarrow> edad row | Some v \<Rightarrow> v),
                       puesto = (case c of None \<Rightarrow> puesto row | Some v \<Rightarrow> v),
                       id_fila = id_fila row\<rparr>
                 else r) (personas s)\<rparr>)"
proof -
  let ?k = "id_fila row"
  let ?d = "dict_exclude_unset (cuerpo n e c)"
  let ?new = "\<lparr>nombre = (case n of None \<Rightarrow> nombre row | Some v \<Rightarrow> v),
                edad = (case e of None \<Rightarrow> edad row | Some v \<Rightarrow> v),
                puesto = (case c of None \<Rightarrow> puesto row | Some v \<Rightarrow> v),
                id_fila = ?k\<rparr>"
  let ?s' = "s\<lparr>personas := map (\<lambda>r. if id_fila r = ?k then ?new else r) (personas s)\<rparr>"
  have sel: "select_por_id ?k s = Inr (Some row)"
    using select_por_id_present [OF assms(1,2)] .
  have rng: "sqlite_int64 ?k" using wf_db_id_range [OF assms(1,2)] .
  have fnd: "find (\<lambda>r. id_fila r = ?k) (personas s) = Some row"
    using sel rng by (simp add: select_por_id_eq)
  have inj: "inj_on id_fila (set (personas s))"
    using wf_db_distinct [OF assms(1)] by (simp add: distinct_map)
  have same: "r = row" if "r \<in> set (personas s)" "id_fila r = ?k" for r
    using inj that assms(2) by (auto dest: inj_onD)
  have fold_row: "fold set_columna ?d r = ?new" if "r \<in> set (personas s)" "id_fila r = ?k" for r
    using same [OF that] by (simp add: fold_dict_cuerpo)
  have map_eq: "map (\<lambda>r. if id_fila r = ?k then fold set_columna ?d r else r) (personas s)
      = map (\<lambda>r. if id_fila r = ?k then ?new else r) (personas s)"
    by (rule map_cong) (auto simp: fold_row)
  have sz: "utf8_size (case n of None \<Rightarrow> nombre row | Some v \<Rightarrow> v) \<le> 1000000000"
    "utf8_size (case c of None \<Rightarrow> puesto row | Some v \<Rightarrow> v) \<le> 1000000000"
    using assms(6) utf8_size_le_record_size
      [of "case n of None \<Rightarrow> nombre row | Some v \<Rightarrow> v" "case e of None \<Rightarrow> edad row | Some v \<Rightarrow> v"
          "case c of None \<Rightarrow> puesto row | Some v \<Rightarrow> v"]
    by simp_all
  have bnd: "bind_parameters (map valor ?d @ [P_int ?k]) = None"
    using assms(3,4,5) sz rng by (intro dict_cuerpo_bind) auto
  have big: "\<not> list_ex (\<lambda>r. id_fila r = ?k \<and> too_big (fold set_columna ?d r)) (personas s)"
    using assms(6) by (auto simp: list_ex_iff fold_row too_big_def)
  have upd: "update_personas ?d ?k s = Inr ?s'"
    using bnd dict_cuerpo_no_null big by (simp add: update_personas_def map_eq)
  have sel': "select_por_id ?k ?s' = Inr (Some ?new)"
    using rng find_map_const [OF fnd, of ?new] by (simp add: select_por_id_eq)
  have pdf: "persona_de_fila ?new =
           \<lparr>nombre = (case n of None \<Rightarrow> nombre row | Some v \<Rightarrow> v),
                edad = (case e of None \<Rightarrow> edad row | Some v \<Rightarrow> v),
                puesto = (case c of None \<Rightarrow> puesto row | Some v \<Rightarrow> v),
                id_persona = Some ?k\<rparr>"
    by (simp add: persona_de_fila_def)
  show ?thesis
  proof (cases "?d = []")
    case True
    then have none: "n = None" "e = None" "c = None"
      by (auto simp: dict_cuerpo split: option.splits)
    have new_row: "?new = row" by (simp add: none)
    have mp: "map (\<lambda>r. if id_fila r = ?k then ?new else r) (personas s) = personas s"
      by (rule map_idI) (auto simp: new_row dest: same)
    have act: "actualizar_persona ?k (cuerpo n e c) s = (Inr (persona_de_fila row), s)"
      using sel True by (simp add: actualizar_persona_def)
    show ?thesis unfolding act mp
      by (simp add: none persona_de_fila_def)
  next
    case False
    have "actualizar_persona ?k (cuerpo n e c) s = (Inr (persona_de_fila ?new), ?s')"
      using sel False upd sel' by (simp add: actualizar_persona_def Let_def)
    then show ?thesis using pdf by simp
  qed
qed

section \<open>Absent ids\<close>

text \<open>
  C1, as the code has it: for an id that fits the 64-bit integer of SQLite and has no
  row in \<open>personas\<close>, get, update (with any body) and delete each fail with the 404
  \<open>HTTPException\<close>, and with nothing else.
\<close>

theorem absent_id_not_found:
  assumes "sqlite_int64 k" and "k \<notin> set (map id_fila (personas s))"
  shows "fst (obtener_persona k s) = Inl (HTTPException 404 ''Persona no encontrada en el equipo'')
       \<and> fst (actualizar_persona k u s) = Inl (HTTPException 404 ''Persona no encontrada en el equipo'')
       \<and> fst (eliminar_persona k s) = Inl (HTTPException 404 ''Persona no encontrada en el equipo'')"
  using select_por_id_absent [OF assms]
  by (simp add: obtener_persona_def actualizar_persona_def eliminar_persona_def no_encontrada_def)

theorem absent_id_not_found_witness:
  "sqlite_int64 2
   \<and> 2 \<notin> set (map id_fila (personas db_una))
   \<and> fst (obtener_persona 2 db_una) = Inl (HTTPException 404 ''Persona no encontrada en el equipo'')
   \<and> fst (actualizar_persona 2
             \<lparr>nombre_upd = Unset, edad_upd = Given (Some 31), puesto_upd = Unset\<rparr> db_una) = Inl (HTTPException 404 ''Persona no encontrada en el equipo'')
   \<and> fst (eliminar_persona 2 db_una) = Inl (HTTPException 404 ''Persona no encontrada en el equipo'')"
  using absent_id_not_found [of 2 db_una
      "\<lparr>nombre_upd = Unset, edad_upd = Given (Some 31), puesto_upd = Unset\<rparr>"]
  by (simp add: sqlite_defs ejemplos)

text \<open>
  The claim as the spec words it, for every id, fails: an id beyond the 64-bit range has
  no row either, and the lookup raises \<open>OverflowError\<close> before any row is searched.
\<close>

theorem absent_id_overflow_counterexample:
  "9223372036854775808 \<notin> set (map id_fila (personas db_vacia))
   \<and> fst (obtener_persona 9223372036854775808 db_vacia) = Inl OverflowError
   \<and> fst (obtener_persona 9223372036854775808 db_vacia)
       \<noteq> Inl (HTTPException 404 ''Persona no encontrada en el equipo'')"
  by (simp add: obtener_persona_def select_por_id_eq sqlite_defs db_vacia_def)

section \<open>Create, then get\<close>

text \<open>
  C2, as the code has it: on a table whose ids are not used up, for every name and role
  without a surrogate and every age that fits the 64-bit integer of SQLite, the three
  making a record within the length SQLite allows, create succeeds and returns the
  created values with a fresh id, and get with that id succeeds and returns the same
  name, age, role and id.
\<close>

theorem create_then_get:
  assumes "wf_db s" and "almacenable (nombre p) (edad p) (puesto p)"
    and "sqlite_sequence s < 9223372036854775807"
  shows "\<exists>i s'. crear_persona p s =
            (Inr \<lparr>nombre = nombre p, edad = edad p, puesto = puesto p, id_persona = Some i\<rparr>, s')
          \<and> obtener_persona i s' =
            (Inr \<lparr>nombre = nombre p, edad = edad p, puesto = puesto p, id_persona = Some i\<rparr>, s')"
proof -
  define i where "i = sqlite_sequence s + 1"
  define row where "row = \<lparr>nombre = nombre p, edad = edad p, puesto = puesto p, id_fila = i\<rparr>"
  define s' where "s' = \<lparr>personas = personas s @ [row], sqlite_sequence = i\<rparr>"
  have ins: "insert_persona p s = Inr (i, s')"
    using insert_persona_wf [OF assms] by (simp add: i_def row_def s'_def)
  then have cr: "crear_persona p s =
      (Inr \<lparr>nombre = nombre p, edad = edad p, puesto = puesto p, id_persona = Some i\<rparr>, s')"
    by (simp add: crear_persona_def)
  have wf': "wf_db s'" using wf_insert [OF assms(1) ins] .
  have "row \<in> set (personas s')" by (simp add: s'_def)
  from select_por_id_present [OF wf' this]
  have "select_por_id i s' = Inr (Some row)" by (simp add: row_def)
  then have "obtener_persona i s' =
      (Inr \<lparr>nombre = nombre p, edad = edad p, puesto = puesto p, id_persona = Some i\<rparr>, s')"
    by (simp add: obtener_persona_def persona_de_fila_def row_def)
  with cr show ?thesis by blast
qed

theorem create_then_get_witness:
  "wf_db db_vacia
   \<and> almacenable (nombre alta_ana) (edad alta_ana) (puesto alta_ana)
   \<and> sqlite_sequence db_vacia < 9223372036854775807
   \<and> crear_persona alta_ana db_vacia =
        (Inr \<lparr>nombre = py ''Ana'', edad = 30, puesto = py ''Engineer'', id_persona = Some 1\<rparr>,
         db_una)
   \<and> obtener_persona 1 db_una =
        (Inr \<lparr>nombre = py ''Ana'', edad = 30, puesto = py ''Engineer'', id_persona = Some 1\<rparr>,
         db_una)"
  using create_then_get [of db_vacia alta_ana]
  by (simp add: wf_db_def db_vacia_def sqlite_defs ejemplos crear_persona_def
        insert_persona_def obtener_persona_def select_por_id_eq persona_de_fila_def)

text \<open>
  The claim for every input fails: an age of \<open>2^63\<close> makes the insert raise, and so does
  a name that is one surrogate; nothing is created.
\<close>

theorem create_overflow_counterexample:
  "crear_persona \<lparr>nombre = py ''Ana'', edad = 9223372036854775808, puesto = py ''Engineer''\<rparr>
       db_vacia
     = (Inl OverflowError, db_vacia)
   \<and> crear_persona \<lparr>nombre = [55296], edad = 30, puesto = py ''Engineer''\<rparr> db_vacia
     = (Inl UnicodeEncodeError, db_vacia)"
  by (simp add: crear_persona_def insert_persona_def sqlite_defs)

section \<open>Update\<close>

text \<open>
  C3, as the code has it: for a row of the table and a body that sends values for any
  of name, age and role (all, some or none of them; no value null, no surrogate in a
  sent text, a sent age within the 64-bit range, the new record within the length
  SQLite allows), update returns and stores a record with the sent fields at their new
  values, the fields not sent at their prior values and the same id; get returns that
  record afterwards, every other row is as before, and so is the id column.
\<close>

theorem merge_patch:
  assumes "wf_db s" and "row \<in> set (personas s)"
    and "\<forall>v. n = Some v \<longrightarrow> \<not> list_ex surrogate v"
    and "\<forall>v. e = Some v \<longrightarrow> sqlite_int64 v"
    and "\<forall>v. c = Some v \<longrightarrow> \<not> list_ex surrogate v"
    and "record_size (case n of None \<Rightarrow> nombre row | Some v \<Rightarrow> v)
           (case e of None \<Rightarrow> edad row | Some v \<Rightarrow> v)
           (case c of None \<Rightarrow> puesto row | Some v \<Rightarrow> v) \<le> 1000000000"
  shows "fst (actualizar_persona (id_fila row) (cuerpo n e c) s) =
           Inr \<lparr>nombre = (case n of None \<Rightarrow> nombre row | Some v \<Rightarrow> v),
                edad = (case e of None \<Rightarrow> edad row | Some v \<Rightarrow> v),
                puesto = (case c of None \<Rightarrow> puesto row | Some v \<Rightarrow> v),
                id_persona = Some (id_fila row)\<rparr>
       \<and> fst (obtener_persona (id_fila row) (snd (actualizar_persona (id_fila row) (cuerpo n e c) s))) =
           Inr \<lparr>nombre = (case n of None \<Rightarrow> nombre row | Some v \<Rightarrow> v),
                edad = (case e of None \<Rightarrow> edad row | Some v \<Rightarrow> v),
                puesto = (case c of None \<Rightarrow> puesto row | Some v \<Rightarrow> v),
                id_persona = Some (id_fila row)\<rparr>
       \<and> filter (\<lambda>r. id_fila r \<noteq> id_fila row)
            (personas (snd (actualizar_persona (id_fila row) (cuerpo n e c) s)))
         = filter (\<lambda>r. id_fila r \<noteq> id_fila row) (personas s)
       \<and> map id_fila (personas (snd (actualizar_persona (id_fila row) (cuerpo n e c) s)))
         = map id_fila (personas s)"
proof -
  let ?k = "id_fila row"
  let ?new = "\<lparr>nombre = (case n of None \<Rightarrow> nombre row | Some v \<Rightarrow> v),
                edad = (case e of None \<Rightarrow> edad row | Some v \<Rightarrow> v),
                puesto = (case c of None \<Rightarrow> puesto row | Some v \<Rightarrow> v),
                id_fila = ?k\<rparr>"
  note upd = actualizar_persona_cuerpo [OF assms]
  have rng: "sqlite_int64 ?k" using wf_db_id_range [OF assms(1,2)] .
  have fnd: "find (\<lambda>r. id_fila r = ?k) (personas s) = Some row"
    using select_por_id_present [OF assms(1,2)] rng by (simp add: select_por_id_eq)
  have fnd': "find (\<lambda>r. id_fila r = ?k)
        (map (\<lambda>r. if id_fila r = ?k then ?new else r) (personas s)) = Some ?new"
    using find_map_const [OF fnd, of ?new] by simp
  have get: "obtener_persona ?k (snd (actualizar_persona ?k (cuerpo n e c) s)) =
      (Inr (persona_de_fila ?new), snd (actualizar_persona ?k (cuerpo n e c) s))"
    using rng fnd' by (simp add: upd obtener_persona_def select_por_id_eq)
  have flt: "filter (\<lambda>r. id_fila r \<noteq> ?k)
        (map (\<lambda>r. if id_fila r = ?k then ?new else r) (personas s))
      = filter (\<lambda>r. id_fila r \<noteq> ?k) (personas s)"
    by (rule filter_map_const) simp
  have ids: "map id_fila (map (\<lambda>r. if id_fila r = ?k then ?new else r) (personas s))
      = map id_fila (personas s)"
    by (rule ids_map_const) simp
  show ?thesis
    using get flt ids by (simp add: upd persona_de_fila_def)
qed

theorem merge_patch_witness:
  "wf_db db_dos
   \<and> fila_ana \<in> set (personas db_dos)
   \<and> sqlite_int64 31
   \<and> record_size (nombre fila_ana) 31 (puesto fila_ana) \<le> 1000000000
   \<and> actualizar_persona 1 (cuerpo None (Some 31) None) db_dos =
        (Inr \<lparr>nombre = py ''Ana'', edad = 31, puesto = py ''Engineer'', id_persona = Some 1\<rparr>,
         \<lparr>personas = [\<lparr>nombre = py ''Ana'', edad = 31, puesto = py ''Engineer'', id_fila = 1\<rparr>,
                       fila_luis],
          sqlite_sequence = 2\<rparr>)"
  using merge_patch [of db_dos fila_ana None "Some 31" None]
  by (simp add: wf_db_def sqlite_defs ejemplos actualizar_persona_def select_por_id_eq
        dict_exclude_unset_def cuerpo_def supplied_def update_personas_def persona_de_fila_def)

text \<open>
  The claim for every new value fails: a new age of \<open>2^63\<close> sent alone, a proper
  subset of the fields, makes the \<open>UPDATE\<close> raise, and so does a new name that is one
  surrogate; no record is returned and the row stays.
\<close>

theorem update_overflow_counterexample:
  "actualizar_persona 1 (cuerpo None (Some 9223372036854775808) None) db_una
     = (Inl OverflowError, db_una)
   \<and> actualizar_persona 1 (cuerpo (Some [55296]) None None) db_una
     = (Inl UnicodeEncodeError, db_una)"
  by (simp add: sqlite_defs ejemplos actualizar_persona_def select_por_id_eq
        dict_exclude_unset_def cuerpo_def supplied_def update_personas_def)

text \<open>
  C4: for a row of the table, update with a body that sends no field succeeds, returns
  the row as it is (name, age, role and id), and leaves the database as it was.
\<close>

theorem empty_update_noop:
  assumes "wf_db s" and "row \<in> set (personas s)"
  shows "actualizar_persona (id_fila row) \<lparr>nombre_upd = Unset, edad_upd = Unset, puesto_upd = Unset\<rparr> s
         = (Inr \<lparr>nombre = nombre row, edad = edad row, puesto = puesto row,
                 id_persona = Some (id_fila row)\<rparr>, s)"
  using select_por_id_present [OF assms]
  by (simp add: actualizar_persona_def dict_exclude_unset_def persona_de_fila_def)

theorem empty_update_noop_witness:
  "wf_db db_dos
   \<and> fila_ana \<in> set (personas db_dos)
   \<and> actualizar_persona 1 \<lparr>nombre_upd = Unset, edad_upd = Unset, puesto_upd = Unset\<rparr> db_dos =
        (Inr \<lparr>nombre = py ''Ana'', edad = 30, puesto = py ''Engineer'', id_persona = Some 1\<rparr>, db_dos)"
  using empty_update_noop [of db_dos fila_ana]
  by (simp add: wf_db_def sqlite_defs ejemplos)

section \<open>Delete\<close>

text \<open>
  C5: for a row of the table, delete succeeds, answers with the row as it was read
  before the \<open>DELETE\<close>, and leaves the table without that row and with every other row;
  get with the same id then fails with the 404 \<open>HTTPException\<close>.
\<close>

theorem delete_snapshot:
  assumes "wf_db s" and "row \<in> set (personas s)"
  shows "eliminar_persona (id_fila row) s =
           (Inr \<lparr>message = py (''Persona '' @ [CHR 0x27]) @ nombre row @
                            py ([CHR 0x27] @ '' eliminada del equipo''),
                 persona_eliminada = row\<rparr>,
            s\<lparr>personas := filter (\<lambda>r. id_fila r \<noteq> id_fila row) (personas s)\<rparr>)
       \<and> set (personas (snd (eliminar_persona (id_fila row) s))) = set (personas s) - {row}
       \<and> fst (obtener_persona (id_fila row) (snd (eliminar_persona (id_fila row) s)))
           = Inl (HTTPException 404 ''Persona no encontrada en el equipo'')"
proof -
  let ?k = "id_fila row"
  let ?s' = "s\<lparr>personas := filter (\<lambda>r. id_fila r \<noteq> ?k) (personas s)\<rparr>"
  have rng: "sqlite_int64 ?k" using wf_db_id_range [OF assms] .
  have del: "eliminar_persona ?k s =
           (Inr \<lparr>message = py (''Persona '' @ [CHR 0x27]) @ nombre row @
                            py ([CHR 0x27] @ '' eliminada del equipo''),
                 persona_eliminada = row\<rparr>, ?s')"
    using select_por_id_present [OF assms] rng
    by (simp add: eliminar_persona_def delete_persona_eq)
  have inj: "inj_on id_fila (set (personas s))"
    using wf_db_distinct [OF assms(1)] by (simp add: distinct_map)
  have st: "set (personas ?s') = set (personas s) - {row}"
    using inj assms(2) by (auto dest: inj_onD)
  have "?k \<notin> set (map id_fila (personas ?s'))" by auto
  from select_por_id_absent [OF rng this]
  have "fst (obtener_persona ?k ?s') = Inl (HTTPException 404 ''Persona no encontrada en el equipo'')"
    by (simp add: obtener_persona_def no_encontrada_def)
  with del st show ?thesis by simp
qed

theorem delete_snapshot_witness:
  "wf_db db_dos
   \<and> fila_ana \<in> set (personas db_dos)
   \<and> eliminar_persona 1 db_dos =
        (Inr \<lparr>message = py (''Persona '' @ [CHR 0x27] @ ''Ana'' @ [CHR 0x27] @
                             '' eliminada del equipo''),
              persona_eliminada = fila_ana\<rparr>,
         \<lparr>personas = [fila_luis], sqlite_sequence = 2\<rparr>)
   \<and> fst (obtener_persona 1 (snd (eliminar_persona 1 db_dos))) = Inl (HTTPException 404 ''Persona no encontrada en el equipo'')"
  using delete_snapshot [of db_dos fila_ana]
  by (simp add: wf_db_def sqlite_defs ejemplos eliminar_persona_def delete_persona_eq
        select_por_id_eq obtener_persona_def no_encontrada_def)

section \<open>Listing\<close>




text \<open>
  C9, as the code has it: for a negative limit and a skip, both within the 64-bit range,
  list does not fail and returns every row after the first \<open>skip\<close> ones (every row when
  \<open>skip\<close> is negative too).
\<close>

theorem negative_limit_unbounded:
  assumes "limit < 0" and "sqlite_int64 limit" and "sqlite_int64 skip"
  shows "obtener_equipo skip limit s =
           (Inr (map persona_de_fila (drop (nat skip) (personas s))), s)"
  using assms by (simp add: obtener_equipo_def select_limit_offset_eq)

theorem negative_limit_unbounded_witness:
  "(- 1 :: int) < 0 \<and> sqlite_int64 (- 1) \<and> sqlite_int64 1
   \<and> obtener_equipo 1 (- 1) db_tres =
        (Inr [\<lparr>nombre = py ''Luis'', edad = 41, puesto = py ''Analyst'', id_persona = Some 2\<rparr>,
              \<lparr>nombre = py ''Eva'', edad = 25, puesto = py ''Designer'', id_persona = Some 3\<rparr>], db_tres)"
  using negative_limit_unbounded [of "- 1" 1 db_tres]
  by (simp add: sqlite_defs ejemplos persona_de_fila_def)

text \<open>
  The claim for every negative limit fails: a limit below \<open>- 2^63\<close> makes the \<open>SELECT\<close>
  raise.
\<close>

theorem negative_limit_overflow_counterexample:
  "(- 9223372036854775809 :: int) < 0
   \<and> fst (obtener_equipo 0 (- 9223372036854775809) db_vacia) = Inl OverflowError"
  by (simp add: sqlite_defs obtener_equipo_def select_limit_offset_eq)

section \<open>The ids\<close>

text \<open>
  C7: the ids of the rows are distinct in every database reached from the empty one by
  any requests. Of two successful creates, the later one returns the larger id, whatever
  requests were served in between. The id create returns is chosen by the database, not
  by the request body (two bodies get the same id on the same database), and is the id
  of no row already there. Update leaves the id column as it was and answers with the id
  it was called with. One request of any kind leaves the id column as it was, or appends
  one id larger than all of them, or removes the rows of one id; it rewrites none.
\<close>

theorem ids_unique_increasing_immutable:
  "distinct (map id_fila (personas (atender_todas reqs db_vacia)))
   \<and> (crear_persona p1 s = (Inr r1, s1) \<and> crear_persona p2 (atender_todas reqs s1) = (Inr r2, s2)
        \<longrightarrow> (\<exists>i j. id_persona r1 = Some i \<and> id_persona r2 = Some j \<and> i < j))
   \<and> (fst (crear_persona p3 s) = Inr r3 \<and> fst (crear_persona p4 s) = Inr r4
        \<longrightarrow> (\<exists>i. id_persona r3 = Some i \<and> id_persona r4 = Some i
                 \<and> i \<notin> set (map id_fila (personas s))))
   \<and> map id_fila (personas (snd (actualizar_persona k u t))) = map id_fila (personas t)
   \<and> (fst (actualizar_persona k u t) = Inr r \<longrightarrow> id_persona r = Some k)
   \<and> (map id_fila (personas (atender req t)) = map id_fila (personas t)
       \<or> (\<exists>i. map id_fila (personas (atender req t)) = map id_fila (personas t) @ [i]
              \<and> list_all (\<lambda>j. j < i) (map id_fila (personas t)))
       \<or> (\<exists>k. map id_fila (personas (atender req t)) = filter (\<lambda>i. i \<noteq> k) (map id_fila (personas t))))"
proof -
  have a: "distinct (map id_fila (personas (atender_todas reqs db_vacia)))"
    using wf_db_distinct [OF wf_atender_todas [OF wf_db_vacia]] .
  have b: "\<exists>i j. id_persona r1 = Some i \<and> id_persona r2 = Some j \<and> i < j"
    if h: "crear_persona p1 s = (Inr r1, s1) \<and> crear_persona p2 (atender_todas reqs s1) = (Inr r2, s2)"
  proof -
    from h crear_persona_ids [of p1 s r1 s1]
    have i: "id_persona r1 = Some (sqlite_sequence s1)" by simp
    from h crear_persona_ids [of p2 "atender_todas reqs s1" r2 s2]
    have j: "id_persona r2 = Some (sqlite_sequence s2)"
      and lt: "sqlite_sequence (atender_todas reqs s1) < sqlite_sequence s2" by simp_all
    have "sqlite_sequence s1 \<le> sqlite_sequence (atender_todas reqs s1)"
      by (rule seq_atender_todas)
    with lt have "sqlite_sequence s1 < sqlite_sequence s2" by simp
    with i j show ?thesis by blast
  qed
  have c: "\<exists>i. id_persona r3 = Some i \<and> id_persona r4 = Some i
                 \<and> i \<notin> set (map id_fila (personas s))"
    if h: "fst (crear_persona p3 s) = Inr r3 \<and> fst (crear_persona p4 s) = Inr r4"
  proof -
    from h have c1: "crear_persona p3 s = (Inr r3, snd (crear_persona p3 s))"
      and c2: "crear_persona p4 s = (Inr r4, snd (crear_persona p4 s))"
      by (metis prod.collapse)+
    have "id_persona r3 = id_persona r4"
      using crear_persona_id_value [OF c1] crear_persona_id_value [OF c2] by simp
    moreover from crear_persona_ids [OF c1]
    have "id_persona r3 = Some (sqlite_sequence (snd (crear_persona p3 s)))
        \<and> sqlite_sequence (snd (crear_persona p3 s)) \<notin> set (map id_fila (personas s))"
      by auto
    ultimately show ?thesis by metis
  qed
  have d: "map id_fila (personas (snd (actualizar_persona k u t))) = map id_fila (personas t)"
    by (simp add: actualizar_persona_ids)
  have e: "id_persona r = Some k" if "fst (actualizar_persona k u t) = Inr r"
    using that by (rule actualizar_persona_id)
  note f = atender_ids [of req t]
  from a b c d e f show ?thesis by blast
qed

theorem ids_unique_increasing_immutable_witness:
  "distinct (map id_fila (personas (atender_todas [Eliminar 1] db_vacia)))
   \<and> crear_persona alta_ana db_vacia =
        (Inr \<lparr>nombre = py ''Ana'', edad = 30, puesto = py ''Engineer'', id_persona = Some 1\<rparr>, db_una)
   \<and> crear_persona alta_luis (atender_todas [Eliminar 1] db_una) =
        (Inr \<lparr>nombre = py ''Luis'', edad = 41, puesto = py ''Analyst'', id_persona = Some 2\<rparr>,
         \<lparr>personas = [fila_luis], sqlite_sequence = 2\<rparr>)
   \<and> (1::int) < 2
   \<and> fst (crear_persona alta_ana db_vacia) =
        Inr \<lparr>nombre = py ''Ana'', edad = 30, puesto = py ''Engineer'', id_persona = Some 1\<rparr>
   \<and> fst (crear_persona alta_luis db_vacia) =
        Inr \<lparr>nombre = py ''Luis'', edad = 41, puesto = py ''Analyst'', id_persona = Some 1\<rparr>
   \<and> 1 \<notin> set (map id_fila (personas db_vacia))
   \<and> actualizar_persona 1
        \<lparr>nombre_upd = Unset, edad_upd = Given (Some 31), puesto_upd = Unset\<rparr> db_dos =
        (Inr \<lparr>nombre = py ''Ana'', edad = 31, puesto = py ''Engineer'', id_persona = Some 1\<rparr>,
         \<lparr>personas = [\<lparr>nombre = py ''Ana'', edad = 31, puesto = py ''Engineer'', id_fila = 1\<rparr>,
                       fila_luis],
          sqlite_sequence = 2\<rparr>)
   \<and> map id_fila (personas (atender (Eliminar 1) db_dos)) = [2]"
  using ids_unique_increasing_immutable [of "[Eliminar 1]" alta_ana db_vacia
      "\<lparr>nombre = py ''Ana'', edad = 30, puesto = py ''Engineer'', id_persona = Some 1\<rparr>" db_una
      alta_luis
      "\<lparr>nombre = py ''Luis'', edad = 41, puesto = py ''Analyst'', id_persona = Some 2\<rparr>"
      "\<lparr>personas = [fila_luis], sqlite_sequence = 2\<rparr>"
      alta_ana
      "\<lparr>nombre = py ''Ana'', edad = 30, puesto = py ''Engineer'', id_persona = Some 1\<rparr>"
      alta_luis
      "\<lparr>nombre = py ''Luis'', edad = 41, puesto = py ''Analyst'', id_persona = Some 1\<rparr>"
      1 "\<lparr>nombre_upd = Unset, edad_upd = Given (Some 31), puesto_upd = Unset\<rparr>" db_dos
      "\<lparr>nombre = py ''Ana'', edad = 31, puesto = py ''Engineer'', id_persona = Some 1\<rparr>"
      "Eliminar 1"]
  by (simp add: atender_todas_def crear_persona_def insert_persona_def db_vacia_def ejemplos
        sqlite_defs actualizar_persona_def select_por_id_eq dict_exclude_unset_def
        update_personas_def persona_de_fila_def eliminar_persona_def delete_persona_eq
        no_encontrada_def)

section \<open>Name and role\<close>




section \<open>The error path writes nothing\<close>

text \<open>
  C10: whenever get, update or delete fails with the 404 \<open>HTTPException\<close>, the database
  after the call is the database before it.
\<close>

theorem not_found_no_write:
  "(fst (obtener_persona k s) = Inl (HTTPException 404 d) \<longrightarrow> snd (obtener_persona k s) = s)
   \<and> (fst (actualizar_persona k u s) = Inl (HTTPException 404 d) \<longrightarrow> snd (actualizar_persona k u s) = s)
   \<and> (fst (eliminar_persona k s) = Inl (HTTPException 404 d) \<longrightarrow> snd (eliminar_persona k s) = s)"
proof (intro conjI impI)
  show "snd (obtener_persona k s) = s"
    by (simp add: obtener_persona_def split: sum.splits option.splits)
next
  assume "fst (actualizar_persona k u s) = Inl (HTTPException 404 d)"
  then show "snd (actualizar_persona k u s) = s"
    using update_personas_not_http [of "dict_exclude_unset u" k s 404 d]
    by (auto simp: actualizar_persona_def Let_def split: sum.splits option.splits if_splits
          dest: select_por_id_error)
next
  assume "fst (eliminar_persona k s) = Inl (HTTPException 404 d)"
  then show "snd (eliminar_persona k s) = s"
    by (auto simp: eliminar_persona_def split: sum.splits option.splits
          dest: select_por_id_error delete_persona_error)
qed

theorem not_found_no_write_witness:
  "fst (obtener_persona 2 db_una) = Inl (HTTPException 404 ''Persona no encontrada en el equipo'')
   \<and> snd (obtener_persona 2 db_una) = db_una
   \<and> fst (actualizar_persona 2
             \<lparr>nombre_upd = Given (Some (py ''Eva'')), edad_upd = Unset, puesto_upd = Unset\<rparr> db_una) = Inl (HTTPException 404 ''Persona no encontrada en el equipo'')
   \<and> snd (actualizar_persona 2
             \<lparr>nombre_upd = Given (Some (py ''Eva'')), edad_upd = Unset, puesto_upd = Unset\<rparr> db_una)
       = db_una
   \<and> fst (eliminar_persona 2 db_una) = Inl (HTTPException 404 ''Persona no encontrada en el equipo'')
   \<and> snd (eliminar_persona 2 db_una) = db_una"
  using not_found_no_write [of 2 db_una "''Persona no encontrada en el equipo''"
      "\<lparr>nombre_upd = Given (Some (py ''Eva'')), edad_upd = Unset, puesto_upd = Unset\<rparr>"]
  by (simp add: obtener_persona_def actualizar_persona_def eliminar_persona_def select_por_id_eq
        sqlite_defs no_encontrada_def ejemplos)

end
